theory Spec2Isabelle
  imports Main
begin

section \<open>The gallery page of LensBridgeFrontend (src/pages/Gallery.jsx)\<close>

text \<open>
  The component \<open>Gallery\<close> keeps its data in React state variables and changes them in
  event handlers, in two effects (the fetch effect and the debounce effect) and in the
  continuation of the asynchronous fetch. The model below is a record of those state
  variables together with the part of the browser the component talks to (the pending
  debounce timeout, the fetches that are under way, the item list that the \<open>keydown\<close>
  listener has captured and the calls of \<open>URL.revokeObjectURL\<close>), and one function per
  handler.

  JavaScript strings are modelled as \<open>string\<close>. JavaScript numbers are IEEE doubles; the
  numbers of this component are finite and integral, and the model writes them as
  \<open>int\<close>, with \<open>NaN\<close> as \<open>None\<close> where the code can produce it. A sum or difference of
  numbers that the server sends can leave the range in which doubles hold every integer,
  and is rounded as the double arithmetic rounds it (\<open>js_add\<close>, \<open>js_sub\<close>); the
  arithmetic on indices into the item list stays far inside that range and is exact.
\<close>

subsection \<open>Numbers\<close>

text \<open>The number of binary digits of a positive number.\<close>

function bit_length :: "int \<Rightarrow> nat" where
  "bit_length n = (if n \<le> 0 then 0 else Suc (bit_length (n div 2)))"
  by pat_completeness auto
termination
  by (relation "measure nat") auto

declare bit_length.simps [simp del]

text \<open>
  The double nearest to a number \<open>m \<ge> 0\<close>: below \<open>2^53 = 9007199254740992\<close> the number
  itself, above it the nearest number with 53 significant binary digits, the one with
  the even significand when two are equally near. (The doubles end below \<open>2^1024\<close>; the
  sums and differences of the component, which add or subtract at most 5, never go
  past the largest double.)
\<close>

definition round_double :: "int \<Rightarrow> int" where
  "round_double m =
     (if m < 9007199254740992 then m
      else (let e = bit_length m - 53;
                q = m div 2 ^ e;
                r = m mod 2 ^ e;
                half = 2 ^ (e - 1)
            in (if r > half \<or> (r = half \<and> odd q) then q + 1 else q) * 2 ^ e))"

definition js_round :: "int \<Rightarrow> int" where
  "js_round k = sgn k * round_double \<bar>k\<bar>"

text \<open>\<open>a + b\<close> and \<open>a - b\<close> on integral doubles.\<close>

definition js_add :: "int \<Rightarrow> int \<Rightarrow> int" where
  "js_add a b = js_round (a + b)"

definition js_sub :: "int \<Rightarrow> int \<Rightarrow> int" where
  "js_sub a b = js_round (a - b)"

subsection \<open>Strings\<close>

text \<open>\<open>s.startsWith(p)\<close>.\<close>

definition startsWith :: "string \<Rightarrow> string \<Rightarrow> bool" where
  "startsWith s p = (take (length p) s = p)"

text \<open>\<open>s.includes(p)\<close>: \<open>p\<close> occurs in \<open>s\<close> as a contiguous block.\<close>

fun includes_str :: "string \<Rightarrow> string \<Rightarrow> bool" where
  "includes_str [] p = (p = [])"
| "includes_str (c # cs) p = (startsWith (c # cs) p \<or> includes_str cs p)"

text \<open>\<open>s.toLowerCase()\<close> on the ASCII letters (a \<open>char\<close> is a byte).\<close>

definition lower_char :: "char \<Rightarrow> char" where
  "lower_char c =
     (let k = (of_char c :: nat) in if 65 \<le> k \<and> k \<le> 90 then char_of (k + 32) else c)"

definition toLowerCase :: "string \<Rightarrow> string" where
  "toLowerCase s = map lower_char s"

text \<open>The decimal digits of a natural number.\<close>

definition digit_char :: "nat \<Rightarrow> char" where
  "digit_char d = char_of (48 + d)"

function string_of_nat :: "nat \<Rightarrow> string" where
  "string_of_nat n =
     (if n < 10 then [digit_char n] else string_of_nat (n div 10) @ [digit_char (n mod 10)])"
  by pat_completeness auto
termination
  by (relation "measure (\<lambda>n. n)") auto

declare string_of_nat.simps [simp del]

text \<open>
  \<open>n.toString()\<close> for an integral double \<open>n\<close>. JavaScript prints the shortest decimal
  number that the double arithmetic reads back as \<open>n\<close>: it is found by dropping as many
  low digits as possible (\<open>shortest_at x j\<close> drops \<open>j\<close> digits and tries the two numbers
  around \<open>x\<close> that end in \<open>j\<close> zeros, taking the nearer, and the even one of two equally
  near). A number of at most 21 digits is printed with all its digits, a longer one with
  an exponent. Up to \<open>2^53\<close> the result is the decimal digits of \<open>n\<close>.
\<close>

function digits_of :: "int \<Rightarrow> string" where
  "digits_of n =
     (if n < 10 then [digit_char (nat n)]
      else digits_of (n div 10) @ [digit_char (nat (n mod 10))])"
  by pat_completeness auto
termination
  by (relation "measure nat") auto

declare digits_of.simps [simp del]

function strip_zeros :: "int \<Rightarrow> int" where
  "strip_zeros n = (if n \<le> 0 then 0 else if n mod 10 = 0 then strip_zeros (n div 10) else n)"
  by pat_completeness auto
termination
  by (relation "measure nat") auto

declare strip_zeros.simps [simp del]

fun shortest_at :: "int \<Rightarrow> nat \<Rightarrow> int" where
  "shortest_at x 0 = x"
| "shortest_at x (Suc j) =
     (let p = 10 ^ Suc j;
          s = x div p;
          lo = s * p;
          hi = lo + p;
          lo_ok = (round_double lo = x);
          hi_ok = (round_double hi = x)
      in if lo_ok \<and> hi_ok then
           (if x - lo < hi - x then lo
            else if hi - x < x - lo then hi
            else if even s then lo else hi)
         else if lo_ok then lo
         else if hi_ok then hi
         else shortest_at x j)"

definition number_to_string :: "int \<Rightarrow> string" where
  "number_to_string x =
     (if x \<le> 0 then ''0''
      else (let v = shortest_at x (length (digits_of x) - 1);
                ds = digits_of v;
                n = length ds
            in if n \<le> 21 then ds
               else (let s = digits_of (strip_zeros v)
                     in (if length s = 1 then s else hd s # CHR ''.'' # tl s)
                        @ ''e+'' @ digits_of (int n - 1))))"

definition toString :: "int \<Rightarrow> string" where
  "toString i =
     (if i < 0 then CHR ''-'' # number_to_string (- i) else number_to_string i)"

subsection \<open>Data\<close>

text \<open>
  A media item as the server sends it, with the fields the component reads; \<open>src\<close> is
  always a string. \<open>originalSrc\<close> is the field that \<open>processGalleryItems\<close> adds (absent,
  \<open>None\<close>, on an item it did not touch).
\<close>

record media_item =
  item_id :: nat
  item_type :: string
  src :: string
  originalSrc :: "string option"
  title :: string
  featured :: bool

text \<open>The \<open>pageable\<close> state object \<open>{page, size, sort}\<close>.\<close>

record pageable_req =
  page :: int
  size_pg :: int
  sort_pg :: string

text \<open>
  The parsed JSON body of a gallery response: an array of items, or an object whose
  fields \<open>content\<close> and \<open>items\<close> may be absent (\<open>None\<close>) and that carries the numbers of
  the paged envelope.
\<close>

datatype gallery_data =
    DataArray "media_item list"
  | DataObject
      (d_content: "media_item list option")
      (d_items: "media_item list option")
      (d_number: int)
      (d_totalPages: int)
      (d_totalElements: int)
      (d_size: int)

text \<open>
  How a fetch ends: \<open>fetch\<close> rejects with a message (network failure), or a response
  with a status arrives whose \<open>json()\<close> either rejects with a message or gives the data.
\<close>

datatype fetch_outcome =
    Rejected string
  | Response nat "string + gallery_data"

text \<open>\<open>response.ok\<close>: the status is in the range 200 to 299.\<close>

definition response_ok :: "nat \<Rightarrow> bool" where
  "response_ok status = (200 \<le> status \<and> status \<le> 299)"

text \<open>
  What the HEIC conversion finds outside the component: whether the library
  \<open>heic2any\<close> is there, the MIME type of the blob fetched from a locator (\<open>None\<close> when
  the fetch or \<open>blob()\<close> rejects), and the object URL created for the blob that
  \<open>heic2any\<close> makes of it (\<open>None\<close> when \<open>heic2any\<close> or \<open>URL.createObjectURL\<close> throws).
\<close>

record heic_env =
  heic2any_available :: bool
  fetch_blob_type :: "string \<Rightarrow> string option"
  heic2any_result :: "string \<Rightarrow> string option"

record gallery_state =
  searchTerm :: string
  selectedFilter :: string
  galleryItems :: "media_item list"
  isLoading :: bool
  isPaginating :: bool
  error :: "string option"
  selectedItem :: "media_item option"
  currentIndex :: "int option"
  isVideoPlaying :: bool
  currentPage :: int
  pageSize :: int
  totalPages :: int
  totalElements :: int
  pageable :: pageable_req
  searchInput :: string
  timer :: "(nat \<times> string) option"
  clock :: nat
  inflight :: "(string \<times> string) list list"
  processing :: "fetch_outcome list"
  revoked :: "string list"
  items_gen :: nat
  selected_gen :: nat
  keydown_items :: "media_item list"
  keydown_gen :: nat

text \<open>
  The fields from \<open>timer\<close> on are the browser's side. \<open>timer\<close> is the pending debounce
  timeout (the time it is due, in ms, and the \<open>searchInput\<close> its callback has captured)
  and \<open>clock\<close> the current time in ms. A gallery request is under way in two stages:
  \<open>inflight\<close> holds the query parameters of the requests whose response has not arrived
  yet, in the order they were issued, and \<open>processing\<close> the responses that have arrived
  with a status in 200 to 299 and whose \<open>json()\<close> and HEIC conversions the code is still
  awaiting, in the order they arrived. \<open>revoked\<close> holds the arguments of the calls of
  \<open>URL.revokeObjectURL\<close> so far.

  \<open>keydown_items\<close> is the \<open>filteredItems\<close> that the bound \<open>keydown\<close> listener has
  captured. The last three numbers stand for the identity of JavaScript arrays and
  objects, which React compares when it looks for a changed dependency: every array
  that \<open>setGalleryItems\<close> installs gets a new number, \<open>items_gen\<close> is the number of
  \<open>galleryItems\<close>, \<open>keydown_gen\<close> that of \<open>keydown_items\<close> and \<open>selected_gen\<close> that of the
  array from which \<open>selectedItem\<close> was taken.
\<close>

definition init_state :: gallery_state where
  "init_state =
     \<lparr> searchTerm = '''', selectedFilter = ''all'', galleryItems = [], isLoading = True,
       isPaginating = False, error = None, selectedItem = None, currentIndex = Some 0,
       isVideoPlaying = False, currentPage = 0, pageSize = 12, totalPages = 0,
       totalElements = 0,
       pageable = \<lparr> page = 0, size_pg = 12, sort_pg = ''date,desc'' \<rparr>,
       searchInput = '''', timer = None, clock = 0, inflight = [], processing = [],
       revoked = [], items_gen = 0, selected_gen = 0, keydown_items = [],
       keydown_gen = 0 \<rparr>"

subsection \<open>The media format normalizer (lines 30 to 84)\<close>

definition convertHeicToJpeg :: "heic_env \<Rightarrow> string \<Rightarrow> string" where
  "convertHeicToJpeg env imageUrl =
     (if \<not> heic2any_available env then imageUrl
      else case fetch_blob_type env imageUrl of
        None \<Rightarrow> imageUrl
      | Some ty \<Rightarrow>
          if \<not> includes_str ty ''heic'' \<and> \<not> includes_str ty ''heif'' then imageUrl
          else (case heic2any_result env imageUrl of
                  None \<Rightarrow> imageUrl
                | Some convertedUrl \<Rightarrow> convertedUrl))"

text \<open>The test of line 75: an image whose locator names the HEIC or HEIF format.\<close>

definition heic_flagged :: "media_item \<Rightarrow> bool" where
  "heic_flagged item =
     (item_type item = ''image'' \<and>
      (includes_str (toLowerCase (src item)) ''.heic'' \<or>
       includes_str (toLowerCase (src item)) ''.heif''))"

definition processItem :: "heic_env \<Rightarrow> media_item \<Rightarrow> media_item" where
  "processItem env item =
     (if heic_flagged item
      then item\<lparr> src := convertHeicToJpeg env (src item), originalSrc := Some (src item) \<rparr>
      else item)"

definition processGalleryItems :: "heic_env \<Rightarrow> media_item list \<Rightarrow> media_item list" where
  "processGalleryItems env items = map (processItem env) items"

subsection \<open>Object URLs and their release (lines 265 to 273)\<close>

definition is_blob :: "media_item \<Rightarrow> bool" where
  "is_blob item = (src item \<noteq> [] \<and> startsWith (src item) ''blob:'')"

text \<open>
  The cleanup of the effect on \<open>[galleryItems]\<close>: it revokes the object URL of every item
  of the list it was created for. React runs it when \<open>galleryItems\<close> is replaced and
  when the component unmounts.
\<close>

definition cleanup_items :: "media_item list \<Rightarrow> string list" where
  "cleanup_items items = map src (filter is_blob items)"

definition setGalleryItems :: "media_item list \<Rightarrow> gallery_state \<Rightarrow> gallery_state" where
  "setGalleryItems items s =
     s\<lparr> galleryItems := items, revoked := revoked s @ cleanup_items (galleryItems s),
        items_gen := Suc (items_gen s) \<rparr>"

definition unmount :: "gallery_state \<Rightarrow> gallery_state" where
  "unmount s = s\<lparr> revoked := revoked s @ cleanup_items (galleryItems s), timer := None \<rparr>"

subsection \<open>The gallery fetch (lines 87 to 157)\<close>

text \<open>The \<open>URLSearchParams\<close> of the request, as the list of its pairs.\<close>

definition buildParams :: "gallery_state \<Rightarrow> (string \<times> string) list" where
  "buildParams s =
     [(''page'', toString (page (pageable s))),
      (''size'', toString (size_pg (pageable s))),
      (''sort'', sort_pg (pageable s))]
     @ (if searchTerm s \<noteq> [] then [(''search'', searchTerm s)] else [])
     @ (if selectedFilter s \<noteq> ''all'' then
          (if selectedFilter s = ''featured'' then [(''featured'', ''true'')]
           else if selectedFilter s = ''images'' then [(''type'', ''image'')]
           else if selectedFilter s = ''videos'' then [(''type'', ''video'')]
           else [])
        else [])"

text \<open>
  \<open>fetchGalleryData\<close> up to its first \<open>await\<close>: the loading flags, the error reset and
  the request, which is now awaiting its response.
\<close>

definition fetchGalleryData_start :: "gallery_state \<Rightarrow> gallery_state" where
  "fetchGalleryData_start s =
     (let s1 = (if galleryItems s = [] then s\<lparr> isLoading := True \<rparr>
                else s\<lparr> isPaginating := True \<rparr>)
      in s1\<lparr> error := None, inflight := inflight s1 @ [buildParams s] \<rparr>)"

text \<open>The two branches of lines 131 to 145, applied to the parsed body.\<close>

definition apply_data :: "heic_env \<Rightarrow> gallery_data \<Rightarrow> gallery_state \<Rightarrow> gallery_state" where
  "apply_data env data s =
     (case data of
        DataObject (Some content) its num tp te sz \<Rightarrow>
          (setGalleryItems (processGalleryItems env content) s)
            \<lparr> currentPage := num, totalPages := tp, totalElements := te, pageSize := sz \<rparr>
      | _ \<Rightarrow>
          (let items = (case data of
                          DataArray xs \<Rightarrow> xs
                        | DataObject c its num tp te sz \<Rightarrow>
                            (case its of Some xs \<Rightarrow> xs | None \<Rightarrow> []));
               processedItems = processGalleryItems env items
           in (setGalleryItems processedItems s)
                \<lparr> totalElements := int (length processedItems), totalPages := 1 \<rparr>))"

text \<open>
  The rest of \<open>fetchGalleryData\<close> for a given outcome of the fetch: the \<open>try\<close> body after
  the fetch, the \<open>catch\<close> and the \<open>finally\<close>.
\<close>

definition fetchGalleryData_done ::
  "heic_env \<Rightarrow> fetch_outcome \<Rightarrow> gallery_state \<Rightarrow> gallery_state" where
  "fetchGalleryData_done env outcome s =
     (let s1 = (case outcome of
                  Rejected msg \<Rightarrow> s\<lparr> error := Some msg \<rparr>
                | Response status body \<Rightarrow>
                    if \<not> response_ok status
                    then s\<lparr> error := Some (''HTTP error! status: '' @ string_of_nat status) \<rparr>
                    else (case body of
                            Inl msg \<Rightarrow> s\<lparr> error := Some msg \<rparr>
                          | Inr data \<Rightarrow> apply_data env data s))
      in s1\<lparr> isLoading := False, isPaginating := False \<rparr>)"

text \<open>
  The fetch of the \<open>i\<close>-th request still in flight settles. A rejected fetch and a
  response whose status is not in 200 to 299 run the \<open>catch\<close> and the \<open>finally\<close> at once.
  After any other response the code awaits \<open>response.json()\<close> and then the conversions of
  \<open>processGalleryItems\<close>, and changes no state until they are done.
\<close>

definition resolve_fetch ::
  "heic_env \<Rightarrow> nat \<Rightarrow> fetch_outcome \<Rightarrow> gallery_state \<Rightarrow> gallery_state" where
  "resolve_fetch env i outcome s =
     (if i < length (inflight s)
      then (let s1 = s\<lparr> inflight := take i (inflight s) @ drop (Suc i) (inflight s) \<rparr>
            in case outcome of
                 Rejected msg \<Rightarrow> fetchGalleryData_done env outcome s1
               | Response status body \<Rightarrow>
                   if \<not> response_ok status then fetchGalleryData_done env outcome s1
                   else s1\<lparr> processing := processing s1 @ [outcome] \<rparr>)
      else s)"

text \<open>
  The awaits of the \<open>j\<close>-th response under processing are over (\<open>json()\<close> has given the
  body or has rejected, and every conversion has settled): the rest of
  \<open>fetchGalleryData\<close> runs. Responses need not finish in the order they arrived.
\<close>

definition finish_fetch :: "heic_env \<Rightarrow> nat \<Rightarrow> gallery_state \<Rightarrow> gallery_state" where
  "finish_fetch env j s =
     (if j < length (processing s)
      then fetchGalleryData_done env (processing s ! j)
             (s\<lparr> processing := take j (processing s) @ drop (Suc j) (processing s) \<rparr>)
      else s)"

subsection \<open>Query state: handlers and effects (lines 159 to 190)\<close>

text \<open>
  The fetch effect has the dependencies \<open>[pageable, searchTerm, selectedFilter]\<close>: it
  runs after every render in which one of them has changed. Every \<open>setPageable\<close> of the
  component stores a fresh object, so the effect runs after each of them.
\<close>

definition fetch_effect :: "gallery_state \<Rightarrow> gallery_state" where
  "fetch_effect s = fetchGalleryData_start s"

definition handleSearchChange :: "string \<Rightarrow> gallery_state \<Rightarrow> gallery_state" where
  "handleSearchChange v s = s\<lparr> searchInput := v \<rparr>"

text \<open>
  The debounce effect, with the dependency \<open>[searchInput]\<close>: its cleanup clears the
  timeout of the previous run and its body sets a new one, 500 ms from now, whose
  callback has captured the current \<open>searchInput\<close>.
\<close>

definition debounce_effect :: "gallery_state \<Rightarrow> gallery_state" where
  "debounce_effect s = s\<lparr> timer := Some (clock s + 500, searchInput s) \<rparr>"

text \<open>The callback of the timeout (lines 165 and 166).\<close>

definition debounce_callback :: "string \<Rightarrow> gallery_state \<Rightarrow> gallery_state" where
  "debounce_callback v s = s\<lparr> searchTerm := v, pageable := (pageable s)\<lparr> page := 0 \<rparr> \<rparr>"

definition handleFilterChange :: "string \<Rightarrow> gallery_state \<Rightarrow> gallery_state" where
  "handleFilterChange f s = s\<lparr> selectedFilter := f, pageable := (pageable s)\<lparr> page := 0 \<rparr> \<rparr>"

definition handlePageChange :: "int \<Rightarrow> gallery_state \<Rightarrow> gallery_state" where
  "handlePageChange newPage s =
     (if newPage \<ge> 0 \<and> newPage < totalPages s
      then s\<lparr> pageable := (pageable s)\<lparr> page := newPage \<rparr> \<rparr>
      else s)"

definition handlePageSizeChange :: "int \<Rightarrow> gallery_state \<Rightarrow> gallery_state" where
  "handlePageSizeChange newSize s =
     s\<lparr> pageable := (pageable s)\<lparr> size_pg := newSize, page := 0 \<rparr> \<rparr>"

text \<open>
  What the user's actions do to the component: the handler, then the effects whose
  dependencies it changed. A keystroke that leaves the text of the input as it is
  changes no state, and no effect runs.
\<close>

definition on_search_input :: "string \<Rightarrow> gallery_state \<Rightarrow> gallery_state" where
  "on_search_input v s =
     (if v = searchInput s then s else debounce_effect (handleSearchChange v s))"

definition on_filter_change :: "string \<Rightarrow> gallery_state \<Rightarrow> gallery_state" where
  "on_filter_change f s = fetch_effect (handleFilterChange f s)"

definition on_page_change :: "int \<Rightarrow> gallery_state \<Rightarrow> gallery_state" where
  "on_page_change newPage s =
     (if newPage \<ge> 0 \<and> newPage < totalPages s
      then fetch_effect (handlePageChange newPage s)
      else s)"

definition on_page_size_change :: "int \<Rightarrow> gallery_state \<Rightarrow> gallery_state" where
  "on_page_size_change newSize s = fetch_effect (handlePageSizeChange newSize s)"

text \<open>
  The pending timeout fires: its callback runs (both updates are applied in one render,
  as React 18 batches them), and the fetch effect after it.
\<close>

definition on_timeout :: "gallery_state \<Rightarrow> gallery_state" where
  "on_timeout s =
     (case timer s of
        None \<Rightarrow> s
      | Some (due, v) \<Rightarrow> fetch_effect (debounce_callback v (s\<lparr> timer := None \<rparr>)))"

text \<open>Time passes until \<open>t\<close>: a timeout that is due by then fires.\<close>

definition advance :: "nat \<Rightarrow> gallery_state \<Rightarrow> gallery_state" where
  "advance t s =
     (case timer s of
        None \<Rightarrow> s\<lparr> clock := max (clock s) t \<rparr>
      | Some (due, v) \<Rightarrow>
          if due \<le> t then (on_timeout s)\<lparr> clock := max (clock s) t \<rparr>
          else s\<lparr> clock := max (clock s) t \<rparr>)"

text \<open>A keystroke at time \<open>t\<close> that leaves \<open>v\<close> in the input.\<close>

definition keystroke :: "nat \<times> string \<Rightarrow> gallery_state \<Rightarrow> gallery_state" where
  "keystroke k s = on_search_input (snd k) (advance (fst k) s)"


text \<open>The first render: both effects run.\<close>

definition mount :: gallery_state where
  "mount = debounce_effect (fetch_effect init_state)"

subsection \<open>The viewer (lines 192 to 262)\<close>

text \<open>\<open>xs.findIndex(P)\<close>: the first index whose element satisfies \<open>P\<close>, or -1.\<close>

fun findIndex :: "('a \<Rightarrow> bool) \<Rightarrow> 'a list \<Rightarrow> int" where
  "findIndex P [] = - 1"
| "findIndex P (x # xs) =
     (if P x then 0 else (let r = findIndex P xs in if r < 0 then - 1 else r + 1))"

text \<open>\<open>xs[i]\<close>: \<open>undefined\<close> (\<open>None\<close>) outside the list.\<close>

definition item_at :: "'a list \<Rightarrow> int \<Rightarrow> 'a option" where
  "item_at xs i = (if 0 \<le> i \<and> i < int (length xs) then Some (xs ! nat i) else None)"

text \<open>
  \<open>a % n\<close> on integral numbers: the remainder has the sign of \<open>a\<close>, and the result is
  \<open>NaN\<close> (\<open>None\<close>) for \<open>n = 0\<close>.
\<close>

definition js_rem :: "int \<Rightarrow> int \<Rightarrow> int option" where
  "js_rem a n = (if n = 0 then None else Some (sgn a * (\<bar>a\<bar> mod \<bar>n\<bar>)))"

text \<open>
  \<open>openViewer\<close> is the click handler of the cards of the grid, so its item is an object
  of the current \<open>galleryItems\<close>.
\<close>

definition openViewer :: "media_item \<Rightarrow> gallery_state \<Rightarrow> gallery_state" where
  "openViewer item s =
     s\<lparr> currentIndex := Some (findIndex (\<lambda>i. item_id i = item_id item) (galleryItems s)),
        selectedItem := Some item,
        isVideoPlaying := False,
        selected_gen := items_gen s \<rparr>"

definition closeViewer :: "gallery_state \<Rightarrow> gallery_state" where
  "closeViewer s =
     s\<lparr> selectedItem := None,
        isVideoPlaying := False,
        revoked := revoked s @
          (case selectedItem s of
             None \<Rightarrow> []
           | Some item \<Rightarrow> if is_blob item then [src item] else []) \<rparr>"

text \<open>
  \<open>navigateViewer\<close> reads \<open>currentIndex\<close> and \<open>filteredItems\<close> (which is \<open>galleryItems\<close>) of
  the render that created it. \<open>navigateViewer_in items gen\<close> is the function of a render
  whose item list was \<open>items\<close>, the array number \<open>gen\<close>; \<open>navigateViewer\<close> is the function
  of the current render, which the two buttons of the viewer call.
\<close>

definition navigateViewer_in ::
  "media_item list \<Rightarrow> nat \<Rightarrow> string \<Rightarrow> gallery_state \<Rightarrow> gallery_state" where
  "navigateViewer_in items gen direction s =
     (let n = int (length items);
          newIndex = (case currentIndex s of
                        None \<Rightarrow> None
                      | Some i \<Rightarrow>
                          if direction = ''next'' then js_rem (i + 1) n
                          else js_rem (i - 1 + n) n)
      in s\<lparr> currentIndex := newIndex,
            selectedItem := (case newIndex of
                               None \<Rightarrow> None
                             | Some k \<Rightarrow> item_at items k),
            isVideoPlaying := False,
            selected_gen := gen \<rparr>)"

definition navigateViewer :: "string \<Rightarrow> gallery_state \<Rightarrow> gallery_state" where
  "navigateViewer direction s =
     navigateViewer_in (galleryItems s) (items_gen s) direction s"

text \<open>
  \<open>toggleVideoPlayback\<close>: the element of class \<open>viewer-video\<close> is in the document when
  the viewer shows a video.
\<close>

definition toggleVideoPlayback :: "gallery_state \<Rightarrow> gallery_state" where
  "toggleVideoPlayback s =
     (case selectedItem s of
        None \<Rightarrow> s
      | Some item \<Rightarrow>
          if item_type item = ''video'' then s\<lparr> isVideoPlaying := \<not> isVideoPlaying s \<rparr>
          else s)"

text \<open>
  The \<open>keydown\<close> listener (lines 237 to 262). It is the \<open>handleKeyDown\<close> of the render
  in which its effect last ran, and the effect has the dependencies
  \<open>[selectedItem, currentIndex, isVideoPlaying]\<close>: those three are the current ones in
  the listener, while its \<open>navigateViewer\<close> works on the item list of that render,
  \<open>keydown_items\<close>.
\<close>

definition handleKeyDown :: "string \<Rightarrow> gallery_state \<Rightarrow> gallery_state" where
  "handleKeyDown key s =
     (case selectedItem s of
        None \<Rightarrow> s
      | Some item \<Rightarrow>
          if key = ''Escape'' then closeViewer s
          else if key = ''ArrowLeft'' then
            navigateViewer_in (keydown_items s) (keydown_gen s) ''prev'' s
          else if key = ''ArrowRight'' then
            navigateViewer_in (keydown_items s) (keydown_gen s) ''next'' s
          else if key = '' '' then
            (if item_type item = ''video'' then toggleVideoPlayback s else s)
          else s)"

text \<open>
  The dependencies of the \<open>keydown\<close> effect are the same in two renders. React compares
  them with \<open>Object.is\<close>: two selected items are the same object when they are equal and
  were taken from the same array. (Within one array the handlers never go from an item
  to an equal item elsewhere without changing \<open>currentIndex\<close>.)
\<close>

definition deps_same :: "gallery_state \<Rightarrow> gallery_state \<Rightarrow> bool" where
  "deps_same old new =
     (selectedItem old = selectedItem new \<and> currentIndex old = currentIndex new \<and>
      isVideoPlaying old = isVideoPlaying new \<and>
      (selectedItem new = None \<or> selected_gen old = selected_gen new))"

text \<open>
  The \<open>keydown\<close> effect after a handler has taken the component from \<open>old\<close> to \<open>new\<close>:
  unless the dependencies are the same, the listener of the new render is bound, with
  the item list of that render.
\<close>

definition keydown_effect :: "gallery_state \<Rightarrow> gallery_state \<Rightarrow> gallery_state" where
  "keydown_effect old new =
     (if deps_same old new then new
      else new\<lparr> keydown_items := galleryItems new, keydown_gen := items_gen new \<rparr>)"

text \<open>
  What the user's actions on the viewer do to the component: a click on a card, on one
  of the two arrows, on the close button or on the play button, a key, and the \<open>play\<close>
  and \<open>pause\<close> events of the video element.
\<close>

definition on_item_click :: "media_item \<Rightarrow> gallery_state \<Rightarrow> gallery_state" where
  "on_item_click item s = keydown_effect s (openViewer item s)"

definition on_arrow_click :: "string \<Rightarrow> gallery_state \<Rightarrow> gallery_state" where
  "on_arrow_click direction s = keydown_effect s (navigateViewer direction s)"

definition on_close_click :: "gallery_state \<Rightarrow> gallery_state" where
  "on_close_click s = keydown_effect s (closeViewer s)"

definition on_play_click :: "gallery_state \<Rightarrow> gallery_state" where
  "on_play_click s = keydown_effect s (toggleVideoPlayback s)"

definition on_video_event :: "bool \<Rightarrow> gallery_state \<Rightarrow> gallery_state" where
  "on_video_event playing s = keydown_effect s (s\<lparr> isVideoPlaying := playing \<rparr>)"

definition on_keydown :: "string \<Rightarrow> gallery_state \<Rightarrow> gallery_state" where
  "on_keydown key s = keydown_effect s (handleKeyDown key s)"

subsection \<open>The page numbers of the pagination controls (lines 509 to 581)\<close>

text \<open>The body of the callback of \<open>Array.from\<close>: the page number of button \<open>i\<close>.\<close>

definition pageNum :: "int \<Rightarrow> int \<Rightarrow> int \<Rightarrow> int" where
  "pageNum tp cp i =
     (if tp \<le> 5 then i
      else if cp < 3 then i
      else if cp > js_sub tp 4 then js_add (js_sub tp 5) i
      else js_add (js_sub cp 2) i)"

text \<open>\<open>Array.from({ length: Math.min(5, totalPages) }, ...)\<close>: one button per index.\<close>

definition pageNumbers :: "int \<Rightarrow> int \<Rightarrow> int list" where
  "pageNumbers tp cp = map (pageNum tp cp) [0 .. min 5 tp - 1]"

text \<open>The controls are rendered under the condition of line 509.\<close>

definition pagination_shown :: "gallery_state \<Rightarrow> bool" where
  "pagination_shown s =
     ((case error s of None \<Rightarrow> True | Some msg \<Rightarrow> msg = []) \<and> \<not> isLoading s \<and> totalPages s > 1)"

text \<open>The page numbers on the buttons that are rendered, in their order.\<close>

definition rendered_page_numbers :: "gallery_state \<Rightarrow> int list" where
  "rendered_page_numbers s =
     (if pagination_shown s then pageNumbers (totalPages s) (currentPage s) else [])"

subsection \<open>Notions used in the statements\<close>

text \<open>
  The conversion of a locator succeeds: \<open>convertHeicToJpeg\<close> reaches its
  \<open>return convertedUrl\<close>.
\<close>

definition conversion_succeeds :: "heic_env \<Rightarrow> string \<Rightarrow> bool" where
  "conversion_succeeds env imageUrl =
     (heic2any_available env \<and>
      (case fetch_blob_type env imageUrl of
         None \<Rightarrow> False
       | Some ty \<Rightarrow> includes_str ty ''heic'' \<or> includes_str ty ''heif'') \<and>
      heic2any_result env imageUrl \<noteq> None)"

text \<open>The items that a parsed body carries, whichever of the two branches reads them.\<close>

definition response_items :: "gallery_data \<Rightarrow> media_item list" where
  "response_items data =
     (case data of
        DataArray xs \<Rightarrow> xs
      | DataObject c its num tp te sz \<Rightarrow>
          (case c of
             Some xs \<Rightarrow> xs
           | None \<Rightarrow> (case its of Some xs \<Rightarrow> xs | None \<Rightarrow> [])))"

text \<open>The invariant of the page result, on the pagination state and on an envelope.\<close>

definition page_invariant :: "gallery_state \<Rightarrow> bool" where
  "page_invariant s = (totalElements s > 0 \<longrightarrow> currentPage s < totalPages s)"

definition envelope_invariant :: "gallery_data \<Rightarrow> bool" where
  "envelope_invariant data =
     (case data of
        DataArray xs \<Rightarrow> True
      | DataObject c its num tp te sz \<Rightarrow> (te > 0 \<longrightarrow> num < tp))"


subsection \<open>Example inputs\<close>

definition photo :: "nat \<Rightarrow> string \<Rightarrow> media_item" where
  "photo n url =
     \<lparr> item_id = n, item_type = ''image'', src = url, originalSrc = None,
       title = ''photo'', featured = False \<rparr>"

definition clip :: "nat \<Rightarrow> string \<Rightarrow> media_item" where
  "clip n url =
     \<lparr> item_id = n, item_type = ''video'', src = url, originalSrc = None,
       title = ''clip'', featured = False \<rparr>"

text \<open>
  A browser in which every conversion succeeds, and one in which \<open>heic2any\<close> rejects.
  The object URL of a converted blob is written as \<open>blob:\<close> followed by the locator.
\<close>

definition env_converting :: heic_env where
  "env_converting =
     \<lparr> heic2any_available = True,
       fetch_blob_type = (\<lambda>u. Some ''image/heic''),
       heic2any_result = (\<lambda>u. Some (''blob:'' @ u)) \<rparr>"

definition env_rejecting :: heic_env where
  "env_rejecting =
     \<lparr> heic2any_available = True,
       fetch_blob_type = (\<lambda>u. Some ''image/heic''),
       heic2any_result = (\<lambda>u. None) \<rparr>"

text \<open>A paged envelope with the given items, page number, pages and elements.\<close>

definition envelope :: "media_item list \<Rightarrow> int \<Rightarrow> int \<Rightarrow> int \<Rightarrow> fetch_outcome" where
  "envelope items num tp te = Response 200 (Inr (DataObject (Some items) None num tp te 12))"

text \<open>
  A response arrives and its processing is over before anything else happens (a failure
  is dealt with on arrival).
\<close>

definition respond ::
  "heic_env \<Rightarrow> nat \<Rightarrow> fetch_outcome \<Rightarrow> gallery_state \<Rightarrow> gallery_state" where
  "respond env i outcome s =
     (let s1 = resolve_fetch env i outcome s
      in if length (processing s) < length (processing s1)
         then finish_fetch env (length (processing s1) - 1) s1
         else s1)"

text \<open>
  The component 550 ms after its first render: the timeout set by the first run of the
  debounce effect has fired, and the request of the first render and the request issued
  by the timeout are in flight.
\<close>

definition settled :: gallery_state where
  "settled = advance 550 mount"

text \<open>
  The gallery at rest: both requests have been answered with page 0 of 3, one photo on
  it; nothing is in flight and no timeout is pending.
\<close>

definition shown_page :: gallery_state where
  "shown_page =
     respond env_converting 0 (envelope [photo 1 ''a.jpg''] 0 3 30)
       (respond env_converting 0 (envelope [photo 1 ''a.jpg''] 0 3 30) settled)"

text \<open>The body is read by the fallback branch: it has no \<open>content\<close>.\<close>

definition is_fallback :: "gallery_data \<Rightarrow> bool" where
  "is_fallback data =
     (case data of DataArray xs \<Rightarrow> True | DataObject c its num tp te sz \<Rightarrow> c = None)"

text \<open>
  The user asks for page 2 of the three pages shown; meanwhile the server has only one
  page of five items left, and answers with an empty page 2 of 1.
\<close>

definition emptied_page :: gallery_state where
  "emptied_page =
     respond env_converting 0 (envelope [] 2 1 5) (on_page_change 2 shown_page)"

text \<open>
  Page 1 of 3 is shown; the user changes the filter, and the request is answered by a
  flat array of one item.
\<close>

definition flat_after_paged :: gallery_state where
  "flat_after_paged =
     respond env_converting 0 (Response 200 (Inr (DataArray [photo 9 ''z.jpg''])))
       (on_filter_change ''images''
          (respond env_converting 0 (envelope [photo 2 ''b.jpg''] 1 3 30)
             (on_page_change 1 shown_page)))"

text \<open>
  From the first page the user asks for page 1 and, before its response arrives, for
  page 2: two requests are in flight.
\<close>

definition two_in_flight :: gallery_state where
  "two_in_flight = on_page_change 2 (on_page_change 1 shown_page)"

text \<open>
  The response for page 2 arrives and is applied, and after it the response for page 1.
\<close>

definition stale_after_fresh :: gallery_state where
  "stale_after_fresh =
     respond env_converting 0 (envelope [photo 2 ''b.jpg''] 1 3 30)
       (respond env_converting 1 (envelope [photo 3 ''c.jpg''] 2 3 30) two_in_flight)"

text \<open>
  The response for page 1, which holds a HEIC photo, arrives first and the response for
  page 2 after it; both are under processing. Then the processing of page 2 is over
  first, and the conversion for page 1 after it.
\<close>

definition both_arrived :: gallery_state where
  "both_arrived =
     resolve_fetch env_converting 0 (envelope [photo 3 ''c.jpg''] 2 3 30)
       (resolve_fetch env_converting 0 (envelope [photo 2 ''b.heic''] 1 3 30) two_in_flight)"

definition slow_first :: gallery_state where
  "slow_first = finish_fetch env_converting 0 (finish_fetch env_converting 1 both_arrived)"

text \<open>
  The first response has been applied: a page whose only item is a HEIC photo, converted
  once, to the object URL \<open>blob:a.heic\<close>.
\<close>

definition heic_page :: gallery_state where
  "heic_page = respond env_converting 0 (envelope [photo 1 ''a.heic''] 0 1 1) mount"

definition converted_photo :: media_item where
  "converted_photo = (photo 1 ''blob:a.heic'')\<lparr> originalSrc := Some ''a.heic'' \<rparr>"

text \<open>
  A gallery of a single page at rest, one that shows page 10 of 20 after the user has
  asked for it, and one that shows page \<open>2^53\<close> of \<open>2^53 + 2\<close>.
\<close>

definition single_page :: gallery_state where
  "single_page =
     respond env_converting 0 (envelope [photo 1 ''a.jpg''] 0 1 1)
       (respond env_converting 0 (envelope [photo 1 ''a.jpg''] 0 1 1) settled)"

definition page_10_of_20 :: gallery_state where
  "page_10_of_20 =
     respond env_converting 0 (envelope [photo 11 ''k.jpg''] 10 20 240)
       (on_page_change 10
          (respond env_converting 0 (envelope [photo 1 ''a.jpg''] 0 20 240)
             (respond env_converting 0 (envelope [photo 1 ''a.jpg''] 0 20 240) settled)))"

definition huge_page :: gallery_state where
  "huge_page =
     respond env_converting 0
       (envelope [photo 1 ''a.jpg''] 9007199254740992 9007199254740994 9007199254740994)
       (respond env_converting 0 (envelope [photo 1 ''a.jpg''] 0 1 1) settled)"

text \<open>
  A page of three photos is shown. The user types \<open>x\<close> into the search box and, before
  the 500 ms are over, clicks the second card: the viewer is open at index 1. Then the
  timeout fires, the request for the search is issued and its response, a page of two
  photos, is applied while the viewer is open.
\<close>

definition three_shown :: gallery_state where
  "three_shown =
     respond env_converting 0
       (envelope [photo 1 ''a.jpg'', photo 2 ''b.jpg'', photo 3 ''c.png''] 0 1 3)
       (respond env_converting 0
          (envelope [photo 1 ''a.jpg'', photo 2 ''b.jpg'', photo 3 ''c.png''] 0 1 3) settled)"

definition opened_second :: gallery_state where
  "opened_second = on_item_click (photo 2 ''b.jpg'') (keystroke (600, ''x'') three_shown)"

definition replaced_under_viewer :: gallery_state where
  "replaced_under_viewer =
     respond env_converting 0 (envelope [photo 7 ''x.jpg'', photo 8 ''y.jpg''] 0 1 2)
       (advance 1100 opened_second)"

section \<open>Properties\<close>

subsection \<open>The window of page numbers\<close>

lemma round_double_safe: "m \<le> 9007199254740992 \<Longrightarrow> round_double m = m"
proof (cases "m < 9007199254740992")
  case True
  then show ?thesis by (simp add: round_double_def)
next
  case False
  assume "m \<le> 9007199254740992"
  with False have m: "m = 9007199254740992" by simp
  have "bit_length 9007199254740992 = 54"
    by (simp add: bit_length.simps)
  then show ?thesis unfolding m by (simp add: round_double_def Let_def)
qed

lemma js_round_safe: "\<bar>k\<bar> \<le> 9007199254740992 \<Longrightarrow> js_round k = k"
  by (simp add: js_round_def round_double_safe mult_sgn_abs)

lemma map_add_upto: "map (\<lambda>i. a + i) [0..n] = [a..a+n]"
  by (rule nth_equalityI) auto

lemma pageNumbers_small: "tp \<le> 5 \<Longrightarrow> pageNumbers tp cp = [0 .. tp - 1]"
proof -
  assume a: "tp \<le> 5"
  then have "pageNum tp cp = (\<lambda>i. i)" by (simp add: pageNum_def fun_eq_iff)
  with a show ?thesis by (simp add: pageNumbers_def min_def)
qed

lemma pageNum_exact:
  assumes "5 < tp" and "tp \<le> 9007199254740992" and "0 \<le> cp" and "cp < tp"
    and "0 \<le> i" and "i \<le> 4"
  shows "pageNum tp cp i =
           (if cp < 3 then 0 else if cp > tp - 4 then tp - 5 else cp - 2) + i"
proof -
  have s4: "js_sub tp 4 = tp - 4" and s5: "js_sub tp 5 = tp - 5"
    using assms(1,2) by (simp_all add: js_sub_def js_round_safe)
  have s2: "js_sub cp 2 = cp - 2"
    using assms(2-4) by (simp add: js_sub_def js_round_safe)
  have a5: "js_add (tp - 5) i = tp - 5 + i"
    using assms(1,2,5,6) by (simp add: js_add_def js_round_safe)
  have a2: "\<not> cp > tp - 4 \<Longrightarrow> js_add (cp - 2) i = cp - 2 + i"
    using assms(2-6) by (simp add: js_add_def js_round_safe)
  show ?thesis
    using assms(1) a2 by (simp add: pageNum_def s4 s5 s2 a5)
qed

lemma pageNumbers_large:
  assumes "5 < tp" and "tp \<le> 9007199254740992" and "0 \<le> cp" and "cp < tp"
  shows "pageNumbers tp cp =
           (if cp < 3 then [0 .. 4]
            else if cp > tp - 4 then [tp - 5 .. tp - 1]
            else [cp - 2 .. cp + 2])"
proof -
  let ?b = "if cp < 3 then 0 else if cp > tp - 4 then tp - 5 else cp - 2"
  from assms(1) have m: "min 5 tp - 1 = 4" by simp
  have "map (pageNum tp cp) [0..4] = map (\<lambda>i. ?b + i) [0..4]"
  proof (rule map_cong [OF refl])
    fix i :: int
    assume "i \<in> set [0..4]"
    then have "0 \<le> i" and "i \<le> 4" by simp_all
    then show "pageNum tp cp i = ?b + i"
      by (rule pageNum_exact [OF assms])
  qed
  also have "\<dots> = [?b .. ?b + 4]"
    by (rule map_add_upto)
  finally have "pageNumbers tp cp = [?b .. ?b + 4]"
    by (simp only: pageNumbers_def m)
  then show ?thesis
    by (simp add: add.commute del: upto_rec_numeral)
qed

text \<open>
  Claim C3, as amended. The page numbers are rendered only where the controls are: with
  no error, no first load under way and more than one page; otherwise no page number is
  rendered. Where they are, for at most \<open>2^53\<close> pages (up to there the doubles hold every
  page number) and a current page among them, the numbers of the buttons are: all the
  pages when there are at most 5; 0 to 4 when there are more and the current page is
  below 3; the last five pages when the current page is above \<open>totalPages - 4\<close>; the five
  pages around the current page otherwise. With 20 pages and the current page 10 the
  window is 8 to 12, and with 3 pages it is 0, 1, 2 whatever the current page is.
\<close>

theorem page_window_rule:
  assumes "pagination_shown s" and "totalPages s \<le> 9007199254740992"
    and "0 \<le> currentPage s" and "currentPage s < totalPages s"
  shows "rendered_page_numbers s =
           (if totalPages s \<le> 5 then [0 .. totalPages s - 1]
            else if currentPage s < 3 then [0 .. 4]
            else if currentPage s > totalPages s - 4
              then [totalPages s - 5 .. totalPages s - 1]
            else [currentPage s - 2 .. currentPage s + 2])
         \<and> (\<not> pagination_shown s' \<longrightarrow> rendered_page_numbers s' = [])
         \<and> (totalPages s' \<le> 1 \<longrightarrow> rendered_page_numbers s' = [])
         \<and> pageNumbers 20 10 = [8, 9, 10, 11, 12]
         \<and> (\<forall>c. pageNumbers 3 c = [0, 1, 2])"
proof (intro conjI allI impI)
  have "pageNumbers (totalPages s) (currentPage s) =
           (if totalPages s \<le> 5 then [0 .. totalPages s - 1]
            else if currentPage s < 3 then [0 .. 4]
            else if currentPage s > totalPages s - 4
              then [totalPages s - 5 .. totalPages s - 1]
            else [currentPage s - 2 .. currentPage s + 2])"
  proof (cases "totalPages s \<le> 5")
    case True
    then show ?thesis by (simp only: pageNumbers_small if_True)
  next
    case False
    then have big: "5 < totalPages s" by simp
    from False show ?thesis
      by (simp only: pageNumbers_large [OF big assms(2-4)] if_False)
  qed
  with assms(1) show "rendered_page_numbers s =
           (if totalPages s \<le> 5 then [0 .. totalPages s - 1]
            else if currentPage s < 3 then [0 .. 4]
            else if currentPage s > totalPages s - 4
              then [totalPages s - 5 .. totalPages s - 1]
            else [currentPage s - 2 .. currentPage s + 2])"
    by (simp only: rendered_page_numbers_def if_True)
  show "rendered_page_numbers s' = []" if "\<not> pagination_shown s'"
    using that by (simp add: rendered_page_numbers_def)
  show "rendered_page_numbers s' = []" if "totalPages s' \<le> 1"
    using that by (simp add: rendered_page_numbers_def pagination_shown_def)
  have "pageNumbers 20 10 = [20 - 5 .. 20 - 1] \<or> pageNumbers 20 10 = [10 - 2 .. 10 + 2]"
    using pageNumbers_large [of 20 10] by simp
  then show "pageNumbers 20 10 = [8, 9, 10, 11, 12]"
    using pageNumbers_large [of 20 10] by simp
  show "pageNumbers 3 c = [0, 1, 2]" for c
    by (simp add: pageNumbers_small upto_rec1)
qed

theorem page_window_rule_witness:
  "pagination_shown page_10_of_20 \<and> totalPages page_10_of_20 \<le> 9007199254740992
   \<and> 0 \<le> currentPage page_10_of_20 \<and> currentPage page_10_of_20 < totalPages page_10_of_20
   \<and> rendered_page_numbers page_10_of_20 = [8, 9, 10, 11, 12]
   \<and> \<not> pagination_shown single_page
   \<and> rendered_page_numbers single_page = []"
proof -
  have h1: "pagination_shown page_10_of_20" by code_simp
  have tp: "totalPages page_10_of_20 = 20" and cp: "currentPage page_10_of_20 = 10"
    by code_simp+
  have h5: "\<not> pagination_shown single_page" by code_simp
  note t = page_window_rule [of page_10_of_20 single_page]
  show ?thesis using t h1 h5 by (simp add: tp cp)
qed

text \<open>
  Claim C3 as stated fails where the controls are not rendered: a gallery of a single
  page, with current page 0, renders no page number, not the page 0. It also fails where
  the doubles do not hold every page number: on page \<open>2^53\<close> of \<open>2^53 + 2\<close> pages the last
  button repeats the number \<open>2^53\<close>.
\<close>

theorem page_window_counterexample:
  "totalPages single_page = 1 \<and> currentPage single_page = 0
   \<and> rendered_page_numbers single_page = []
   \<and> rendered_page_numbers single_page \<noteq> [0 .. totalPages single_page - 1]
   \<and> totalPages huge_page = 9007199254740994 \<and> currentPage huge_page = 9007199254740992
   \<and> rendered_page_numbers huge_page =
        [9007199254740989, 9007199254740990, 9007199254740991, 9007199254740992,
         9007199254740992]
   \<and> rendered_page_numbers huge_page \<noteq> [totalPages huge_page - 5 .. totalPages huge_page - 1]"
proof -
  have s: "totalPages single_page = 1" "currentPage single_page = 0"
      "rendered_page_numbers single_page = []"
    by code_simp+
  have h: "totalPages huge_page = 9007199254740994" "currentPage huge_page = 9007199254740992"
      "pagination_shown huge_page"
    by code_simp+
  have b: "bit_length 9007199254740993 = 54"
    by (simp add: bit_length.simps)
  have r: "js_round 9007199254740993 = 9007199254740992"
    by (simp add: js_round_def round_double_def b Let_def)
  have e: "js_round 9007199254740990 = 9007199254740990" "js_round 9007199254740989 = 9007199254740989"
      "js_round 9007199254740991 = 9007199254740991" "js_round 9007199254740992 = 9007199254740992"
    by (simp_all add: js_round_safe)
  have w: "pageNumbers 9007199254740994 9007199254740992 =
        [9007199254740989, 9007199254740990, 9007199254740991, 9007199254740992,
         9007199254740992]"
    by (simp add: pageNumbers_def pageNum_def js_add_def js_sub_def r e upto_rec1)
  show ?thesis
    using s h w by (simp add: rendered_page_numbers_def upto_rec1)
qed

subsection \<open>The viewer\<close>

lemma js_rem_nonneg: "0 \<le> a \<Longrightarrow> 0 < n \<Longrightarrow> js_rem a n = Some (a mod n)"
  by (cases "a = 0") (simp_all add: js_rem_def)

lemma navigate_frame:
  "galleryItems (navigateViewer d s) = galleryItems s \<and>
   pageable (navigateViewer d s) = pageable s \<and>
   inflight (navigateViewer d s) = inflight s"
  by (simp add: navigateViewer_def navigateViewer_in_def Let_def)

text \<open>
  The two arrows of the viewer call the \<open>navigateViewer\<close> of the current render. With
  the viewer at index \<open>i\<close> of the \<open>n\<close> items of the current page, next moves to index
  \<open>(i + 1) mod n\<close> and prev to \<open>(i - 1 + n) mod n\<close>, the item shown is the item of the
  current page at that index, and neither the items of the page nor the page request
  change, and no fetch is issued.
\<close>

lemma navigate_circular:
  assumes "currentIndex s = Some i" and "0 \<le> i" and "i < int (length (galleryItems s))"
  shows "currentIndex (navigateViewer ''next'' s) = Some ((i + 1) mod int (length (galleryItems s)))
       \<and> currentIndex (navigateViewer ''prev'' s) =
           Some ((i - 1 + int (length (galleryItems s))) mod int (length (galleryItems s)))
       \<and> selectedItem (navigateViewer ''next'' s) =
           Some (galleryItems s ! nat ((i + 1) mod int (length (galleryItems s))))
       \<and> selectedItem (navigateViewer ''prev'' s) =
           Some (galleryItems s !
                   nat ((i - 1 + int (length (galleryItems s))) mod int (length (galleryItems s))))
       \<and> galleryItems (navigateViewer d s) = galleryItems s
       \<and> pageable (navigateViewer d s) = pageable s
       \<and> inflight (navigateViewer d s) = inflight s"
proof -
  let ?n = "int (length (galleryItems s))"
  from assms have n: "0 < ?n" by linarith
  have nx: "js_rem (i + 1) ?n = Some ((i + 1) mod ?n)"
    using assms n by (intro js_rem_nonneg) simp_all
  have pv: "js_rem (i - 1 + ?n) ?n = Some ((i - 1 + ?n) mod ?n)"
    using assms n by (intro js_rem_nonneg) simp_all
  have inr: "0 \<le> k mod ?n \<and> k mod ?n < ?n" for k
    using n by simp
  have at: "item_at (galleryItems s) (k mod ?n) = Some (galleryItems s ! nat (k mod ?n))" for k
    using inr [of k] by (simp add: item_at_def)
  have "currentIndex (navigateViewer ''next'' s) = Some ((i + 1) mod ?n)"
    using assms(1) nx by (simp add: navigateViewer_def navigateViewer_in_def Let_def)
  moreover have "currentIndex (navigateViewer ''prev'' s) = Some ((i - 1 + ?n) mod ?n)"
    using assms(1) pv by (simp add: navigateViewer_def navigateViewer_in_def Let_def)
  moreover have "selectedItem (navigateViewer ''next'' s) =
      Some (galleryItems s ! nat ((i + 1) mod ?n))"
    using assms(1) nx at [of "i + 1"] by (simp add: navigateViewer_def navigateViewer_in_def Let_def)
  moreover have "selectedItem (navigateViewer ''prev'' s) =
      Some (galleryItems s ! nat ((i - 1 + ?n) mod ?n))"
    using assms(1) pv at [of "i - 1 + ?n"] by (simp add: navigateViewer_def navigateViewer_in_def Let_def)
  ultimately show ?thesis using navigate_frame [of d s] by simp
qed

text \<open>
  Claim C7 fails on the code for the arrow keys. The \<open>keydown\<close> listener is bound anew
  only when \<open>selectedItem\<close>, \<open>currentIndex\<close> or \<open>isVideoPlaying\<close> change, so after the
  item list has been replaced under the open viewer it still navigates the list of the
  earlier render. Here the viewer is open at index 1 and the page now has the two items
  \<open>x.jpg\<close> and \<open>y.jpg\<close>: ArrowRight moves to index 2 and shows \<open>c.png\<close>, an item of the
  page that was replaced, where \<open>(1 + 1) mod 2\<close> is 0 and the current page has \<open>x.jpg\<close>
  there; the arrow button in the same state goes to index 0 and \<open>x.jpg\<close>.
\<close>

theorem stale_key_navigation:
  "galleryItems replaced_under_viewer = [photo 7 ''x.jpg'', photo 8 ''y.jpg'']
   \<and> selectedItem replaced_under_viewer = Some (photo 2 ''b.jpg'')
   \<and> currentIndex replaced_under_viewer = Some 1
   \<and> keydown_items replaced_under_viewer =
        [photo 1 ''a.jpg'', photo 2 ''b.jpg'', photo 3 ''c.png'']
   \<and> currentIndex (on_keydown ''ArrowRight'' replaced_under_viewer) = Some 2
   \<and> selectedItem (on_keydown ''ArrowRight'' replaced_under_viewer) = Some (photo 3 ''c.png'')
   \<and> currentIndex (on_arrow_click ''next'' replaced_under_viewer) = Some 0
   \<and> selectedItem (on_arrow_click ''next'' replaced_under_viewer) = Some (photo 7 ''x.jpg'')"
  by code_simp

text \<open>
  Claim C10. Opening the viewer at an item and every next or prev navigation (by button
  or by arrow key) leave the playing flag false, whatever it was before.
\<close>

theorem item_change_resets_playing:
  "isVideoPlaying (openViewer item s) = False
   \<and> isVideoPlaying (navigateViewer direction s) = False
   \<and> isVideoPlaying (handleKeyDown ''ArrowLeft'' (s\<lparr> selectedItem := Some item \<rparr>)) = False
   \<and> isVideoPlaying (handleKeyDown ''ArrowRight'' (s\<lparr> selectedItem := Some item \<rparr>)) = False"
  by (simp add: openViewer_def navigateViewer_def navigateViewer_in_def handleKeyDown_def
      Let_def)


subsection \<open>Query state and fetch\<close>

lemma toString_0: "toString 0 = ''0''"
  by code_simp

lemma buildParams_page: "map_of (buildParams s) ''page'' = Some (toString (page (pageable s)))"
  by (simp add: buildParams_def)

lemma fetch_effect_inflight: "inflight (fetch_effect s) = inflight s @ [buildParams s]"
  by (simp add: fetch_effect_def fetchGalleryData_start_def Let_def)

lemma fetch_effect_query:
  "pageable (fetch_effect s) = pageable s \<and> searchTerm (fetch_effect s) = searchTerm s
   \<and> selectedFilter (fetch_effect s) = selectedFilter s"
  by (simp add: fetch_effect_def fetchGalleryData_start_def Let_def)

text \<open>
  Claim C2. A change of the filter, and the callback of the debounce timeout that settles
  the search term, set the page of the request descriptor to 0, and the gallery request
  issued next carries \<open>page=0\<close>.
\<close>

theorem query_change_resets_page:
  "page (pageable (on_filter_change f s)) = 0
   \<and> selectedFilter (on_filter_change f s) = f
   \<and> inflight (on_filter_change f s) = inflight s @ [buildParams (handleFilterChange f s)]
   \<and> map_of (last (inflight (on_filter_change f s))) ''page'' = Some ''0''
   \<and> page (pageable (on_timeout (s\<lparr> timer := Some (due, v) \<rparr>))) = 0
   \<and> searchTerm (on_timeout (s\<lparr> timer := Some (due, v) \<rparr>)) = v
   \<and> inflight (on_timeout (s\<lparr> timer := Some (due, v) \<rparr>)) =
        inflight s @ [buildParams (debounce_callback v s)]
   \<and> map_of (last (inflight (on_timeout (s\<lparr> timer := Some (due, v) \<rparr>)))) ''page'' = Some ''0''"
proof -
  have f1: "page (pageable (handleFilterChange f s)) = 0"
    and f2: "selectedFilter (handleFilterChange f s) = f"
    and f3: "inflight (handleFilterChange f s) = inflight s"
    by (simp_all add: handleFilterChange_def)
  let ?c = "debounce_callback v (s\<lparr> timer := None \<rparr>)"
  have t0: "on_timeout (s\<lparr> timer := Some (due, v) \<rparr>) = fetch_effect ?c"
    by (simp add: on_timeout_def)
  have t1: "page (pageable ?c) = 0" and t2: "searchTerm ?c = v" and t3: "inflight ?c = inflight s"
    and t4: "buildParams ?c = buildParams (debounce_callback v s)"
    and t5: "page (pageable (debounce_callback v s)) = 0"
    by (simp_all add: debounce_callback_def buildParams_def)
  show ?thesis
    unfolding t0 on_filter_change_def
    by (simp add: fetch_effect_inflight fetch_effect_query f1 f2 f3 t1 t2 t3 t4 t5
        buildParams_page toString_0)
qed

lemma done_failure:
  assumes "outcome = Rejected msg \<and> m = msg
         \<or> (\<exists>status body. outcome = Response status body \<and> \<not> response_ok status
              \<and> m = ''HTTP error! status: '' @ string_of_nat status)"
  shows "fetchGalleryData_done env outcome s =
           s\<lparr> error := Some m, isLoading := False, isPaginating := False \<rparr>"
  using assms by (auto simp: fetchGalleryData_done_def Let_def)

text \<open>
  Claim C6. When a gallery fetch fails, by a rejected \<open>fetch\<close> or by a response whose
  status is not in 200 to 299, the error state is the failure message, the items shown
  stay as they were, and nothing is retried: the failed request leaves the requests in
  flight and no request or timeout is added.
\<close>

theorem fetch_failure_keeps_items:
  assumes "i < length (inflight s)"
    and "outcome = Rejected msg \<and> m = msg
         \<or> outcome = Response status body \<and> \<not> response_ok status
              \<and> m = ''HTTP error! status: '' @ string_of_nat status"
  shows "error (resolve_fetch env i outcome s) = Some m
       \<and> galleryItems (resolve_fetch env i outcome s) = galleryItems s
       \<and> inflight (resolve_fetch env i outcome s) = take i (inflight s) @ drop (Suc i) (inflight s)
       \<and> length (inflight (resolve_fetch env i outcome s)) < length (inflight s)
       \<and> timer (resolve_fetch env i outcome s) = timer s
       \<and> pageable (resolve_fetch env i outcome s) = pageable s
       \<and> totalPages (resolve_fetch env i outcome s) = totalPages s
       \<and> totalElements (resolve_fetch env i outcome s) = totalElements s
       \<and> currentPage (resolve_fetch env i outcome s) = currentPage s
       \<and> revoked (resolve_fetch env i outcome s) = revoked s"
proof -
  let ?s = "s\<lparr> inflight := take i (inflight s) @ drop (Suc i) (inflight s) \<rparr>"
  have r: "resolve_fetch env i outcome s = fetchGalleryData_done env outcome ?s"
    using assms by (auto simp: resolve_fetch_def Let_def)
  have d: "fetchGalleryData_done env outcome ?s =
             ?s\<lparr> error := Some m, isLoading := False, isPaginating := False \<rparr>"
    using assms(2) by (intro done_failure) auto
  have l: "length (take i (inflight s) @ drop (Suc i) (inflight s)) < length (inflight s)"
    using assms(1) by simp
  show ?thesis unfolding r d using l by simp
qed

theorem fetch_failure_keeps_items_witness:
  "0 < length (inflight (on_page_change 1 shown_page))
   \<and> \<not> response_ok 503
   \<and> galleryItems (on_page_change 1 shown_page) = [photo 1 ''a.jpg'']
   \<and> error (resolve_fetch env_converting 0 (Response 503 (Inl [])) (on_page_change 1 shown_page))
       = Some ''HTTP error! status: 503''
   \<and> galleryItems (resolve_fetch env_converting 0 (Response 503 (Inl [])) (on_page_change 1 shown_page))
       = [photo 1 ''a.jpg'']
   \<and> inflight (resolve_fetch env_converting 0 (Response 503 (Inl [])) (on_page_change 1 shown_page)) = []
   \<and> error (resolve_fetch env_converting 0 (Rejected ''Failed to fetch'') (on_page_change 1 shown_page))
       = Some ''Failed to fetch''
   \<and> galleryItems (resolve_fetch env_converting 0 (Rejected ''Failed to fetch'') (on_page_change 1 shown_page))
       = [photo 1 ''a.jpg'']"
proof -
  have h1: "0 < length (inflight (on_page_change 1 shown_page))" by code_simp
  have h2: "\<not> response_ok 503" by (simp add: response_ok_def)
  have g: "galleryItems (on_page_change 1 shown_page) = [photo 1 ''a.jpg'']" by code_simp
  have i: "inflight (on_page_change 1 shown_page) = [buildParams (handlePageChange 1 shown_page)]"
    by code_simp
  have m: "string_of_nat 503 = ''503''" by code_simp
  note a = fetch_failure_keeps_items [OF h1, of "Response 503 (Inl [])"
      undefined "''HTTP error! status: '' @ string_of_nat 503" 503 "Inl []" env_converting]
  note b = fetch_failure_keeps_items [OF h1, of "Rejected ''Failed to fetch''"
      "''Failed to fetch''" "''Failed to fetch''" undefined undefined env_converting]
  show ?thesis using a b h1 h2 by (simp add: g i m)
qed

subsection \<open>Applying a response\<close>

lemma setGalleryItems_fields:
  "galleryItems (setGalleryItems xs s) = xs"
  "currentPage (setGalleryItems xs s) = currentPage s"
  "totalPages (setGalleryItems xs s) = totalPages s"
  "totalElements (setGalleryItems xs s) = totalElements s"
  by (simp_all add: setGalleryItems_def)

lemma apply_data_paged:
  "apply_data env (DataObject (Some c) its num tp te sz) s =
     (setGalleryItems (processGalleryItems env c) s)
       \<lparr> currentPage := num, totalPages := tp, totalElements := te, pageSize := sz \<rparr>"
  by (simp add: apply_data_def)

lemma apply_data_fallback:
  "is_fallback data \<Longrightarrow>
   apply_data env data s =
     (setGalleryItems (processGalleryItems env (response_items data)) s)
       \<lparr> totalElements := int (length (processGalleryItems env (response_items data))),
          totalPages := 1 \<rparr>"
  by (auto simp: apply_data_def is_fallback_def response_items_def Let_def
      split: gallery_data.splits option.splits)

lemma apply_data_items:
  "galleryItems (apply_data env data s) = processGalleryItems env (response_items data)"
proof (cases "is_fallback data")
  case True
  then show ?thesis by (simp add: apply_data_fallback setGalleryItems_fields)
next
  case False
  then obtain c its num tp te sz where "data = DataObject (Some c) its num tp te sz"
    by (auto simp: is_fallback_def split: gallery_data.splits)
  then show ?thesis
    by (simp add: apply_data_paged setGalleryItems_fields response_items_def)
qed

lemma done_success:
  "response_ok status \<Longrightarrow>
   fetchGalleryData_done env (Response status (Inr data)) s =
     (apply_data env data s)\<lparr> isLoading := False, isPaginating := False \<rparr>"
  by (simp add: fetchGalleryData_done_def)

lemma length_process [simp]: "length (processGalleryItems env xs) = length xs"
  by (simp add: processGalleryItems_def)

text \<open>
  Claim C5, as amended. The paged branch copies \<open>number\<close>, \<open>totalPages\<close> and
  \<open>totalElements\<close> of the envelope into the pagination state unchecked, so the invariant
  \<open>pageIndex < totalPages\<close> whenever \<open>totalElements > 0\<close> holds after it exactly when the
  envelope satisfies it. The fallback branch sets \<open>totalPages\<close> to 1 and
  \<open>totalElements\<close> to the number of items, and the invariant holds after it when the
  page index was 0 before (as it is from the first render on).
\<close>

theorem pagination_after_response:
  assumes "response_ok status"
  shows "(let s' = fetchGalleryData_done env
                     (Response status (Inr (DataObject (Some c) its num tp te sz))) s
          in currentPage s' = num \<and> totalPages s' = tp \<and> totalElements s' = te
             \<and> (page_invariant s' \<longleftrightarrow>
                  envelope_invariant (DataObject (Some c) its num tp te sz)))
       \<and> (is_fallback data \<longrightarrow>
            (let s' = fetchGalleryData_done env (Response status (Inr data)) s
             in totalPages s' = 1
                \<and> totalElements s' = int (length (response_items data))
                \<and> (currentPage s = 0 \<longrightarrow> page_invariant s')))"
proof (intro conjI impI)
  show "let s' = fetchGalleryData_done env
                     (Response status (Inr (DataObject (Some c) its num tp te sz))) s
          in currentPage s' = num \<and> totalPages s' = tp \<and> totalElements s' = te
             \<and> (page_invariant s' \<longleftrightarrow>
                  envelope_invariant (DataObject (Some c) its num tp te sz))"
    by (simp add: done_success [OF assms] apply_data_paged page_invariant_def
        envelope_invariant_def Let_def)
next
  assume fb: "is_fallback data"
  show "let s' = fetchGalleryData_done env (Response status (Inr data)) s
             in totalPages s' = 1
                \<and> totalElements s' = int (length (response_items data))
                \<and> (currentPage s = 0 \<longrightarrow> page_invariant s')"
    by (auto simp: done_success [OF assms] apply_data_fallback [OF fb] page_invariant_def
        setGalleryItems_fields Let_def)
qed

theorem pagination_after_response_witness:
  "response_ok 200 \<and> is_fallback (DataArray [photo 1 ''a.jpg''])
   \<and> page_invariant (fetchGalleryData_done env_converting
         (Response 200 (Inr (DataObject (Some [photo 1 ''a.jpg'']) None 0 3 30 12))) init_state)
   \<and> totalPages (fetchGalleryData_done env_converting
         (Response 200 (Inr (DataArray [photo 1 ''a.jpg'']))) init_state) = 1
   \<and> totalElements (fetchGalleryData_done env_converting
         (Response 200 (Inr (DataArray [photo 1 ''a.jpg'']))) init_state) = 1
   \<and> page_invariant (fetchGalleryData_done env_converting
         (Response 200 (Inr (DataArray [photo 1 ''a.jpg'']))) init_state)"
proof -
  have ok: "response_ok 200" by (simp add: response_ok_def)
  have fb: "is_fallback (DataArray [photo 1 ''a.jpg''])" by (simp add: is_fallback_def)
  have cp: "currentPage init_state = 0" by (simp add: init_state_def)
  have ri: "response_items (DataArray [photo 1 ''a.jpg'']) = [photo 1 ''a.jpg'']"
    by (simp add: response_items_def)
  have ei: "envelope_invariant (DataObject (Some [photo 1 ''a.jpg'']) None 0 3 30 12)"
    by (simp add: envelope_invariant_def)
  note t = pagination_after_response [OF ok, of env_converting "[photo 1 ''a.jpg'']" None 0 3 30 12
      init_state "DataArray [photo 1 ''a.jpg'']"]
  show ?thesis using t ok fb by (simp add: Let_def cp ri ei del: One_nat_def)
qed

text \<open>
  Claim C5 as stated fails in both branches: an envelope that reports page 2 of 1 with
  five elements is applied as it is, and a flat list that arrives while page 1 is shown
  leaves the page index 1 beside a single page.
\<close>

theorem pagination_invariant_counterexample:
  "totalElements emptied_page = 5 \<and> currentPage emptied_page = 2 \<and> totalPages emptied_page = 1
   \<and> \<not> page_invariant emptied_page
   \<and> totalElements flat_after_paged = 1 \<and> currentPage flat_after_paged = 1
   \<and> totalPages flat_after_paged = 1 \<and> \<not> page_invariant flat_after_paged"
  by code_simp

subsection \<open>Responses out of order\<close>

lemma apply_data_frame:
  "inflight (apply_data env data s) = inflight s \<and>
   processing (apply_data env data s) = processing s"
  by (simp add: apply_data_def setGalleryItems_def Let_def
      split: gallery_data.splits option.splits)

lemma done_frame:
  "inflight (fetchGalleryData_done env outcome s) = inflight s \<and>
   processing (fetchGalleryData_done env outcome s) = processing s"
  by (simp add: fetchGalleryData_done_def apply_data_frame Let_def
      split: fetch_outcome.splits sum.splits)

lemma finish_processing:
  "j < length (processing s) \<Longrightarrow>
   processing (finish_fetch env j s) = take j (processing s) @ drop (Suc j) (processing s)"
  by (simp add: finish_fetch_def done_frame)

lemma finish_success_items:
  assumes "j < length (processing s)" and "processing s ! j = Response status (Inr data)"
    and "response_ok status"
  shows "galleryItems (finish_fetch env j s) = processGalleryItems env (response_items data)"
  using assms by (simp add: finish_fetch_def done_success apply_data_items)

lemma nth_after_removal:
  assumes "a < b" and "b < length xs"
  shows "(take a xs @ drop (Suc a) xs) ! (b - 1) = xs ! b"
    and "(take b xs @ drop (Suc b) xs) ! a = xs ! a"
    and "b - 1 < length (take a xs @ drop (Suc a) xs)"
    and "a < length (take b xs @ drop (Suc b) xs)"
  using assms by (auto simp: nth_append min_def)

lemma arrival_keeps_view:
  assumes "i < length (inflight s)" and "response_ok status"
  shows "resolve_fetch env i (Response status body) s =
           s\<lparr> inflight := take i (inflight s) @ drop (Suc i) (inflight s),
              processing := processing s @ [Response status body] \<rparr>"
  using assms by (simp add: resolve_fetch_def Let_def)

text \<open>
  Claim C1, as amended. A response that arrives changes nothing in the view: the code
  first awaits its \<open>json()\<close> and the HEIC conversions of its items. When those are over the
  response is applied and its items are the items shown, whatever has been requested,
  has arrived or has been applied since: of two responses under processing, the items
  shown in the end are those of the one whose processing is over last, whichever of the
  two was requested or arrived first. No response is discarded.
\<close>

theorem last_finished_is_shown:
  assumes "a < b" and "b < length (processing s)"
    and "processing s ! a = Response stA (Inr dataA)"
    and "processing s ! b = Response stB (Inr dataB)"
    and "response_ok stA" and "response_ok stB"
  shows "galleryItems (finish_fetch env b s) = processGalleryItems env (response_items dataB)
       \<and> galleryItems (finish_fetch env (b - 1) (finish_fetch env a s)) =
           processGalleryItems env (response_items dataB)
       \<and> galleryItems (finish_fetch env a (finish_fetch env b s)) =
           processGalleryItems env (response_items dataA)
       \<and> (i < length (inflight s') \<and> response_ok st \<longrightarrow>
            galleryItems (resolve_fetch env i (Response st body) s') = galleryItems s'
            \<and> processing (resolve_fetch env i (Response st body) s') =
                processing s' @ [Response st body])"
proof (intro conjI impI)
  have la: "a < length (processing s)" using assms(1,2) by simp
  have pa: "processing (finish_fetch env a s) =
              take a (processing s) @ drop (Suc a) (processing s)"
    using la by (rule finish_processing)
  have pb: "processing (finish_fetch env b s) =
              take b (processing s) @ drop (Suc b) (processing s)"
    using assms(2) by (rule finish_processing)
  note n = nth_after_removal [OF assms(1,2)]
  show "galleryItems (finish_fetch env b s) = processGalleryItems env (response_items dataB)"
    by (rule finish_success_items [OF assms(2,4,6)])
  show "galleryItems (finish_fetch env (b - 1) (finish_fetch env a s)) =
           processGalleryItems env (response_items dataB)"
  proof (rule finish_success_items [OF _ _ assms(6)])
    show "b - 1 < length (processing (finish_fetch env a s))"
      unfolding pa by (rule n(3))
    show "processing (finish_fetch env a s) ! (b - 1) = Response stB (Inr dataB)"
      unfolding pa n(1) by (rule assms(4))
  qed
  show "galleryItems (finish_fetch env a (finish_fetch env b s)) =
           processGalleryItems env (response_items dataA)"
  proof (rule finish_success_items [OF _ _ assms(5)])
    show "a < length (processing (finish_fetch env b s))"
      unfolding pb by (rule n(4))
    show "processing (finish_fetch env b s) ! a = Response stA (Inr dataA)"
      unfolding pb n(2) by (rule assms(3))
  qed
  assume h: "i < length (inflight s') \<and> response_ok st"
  then have r: "resolve_fetch env i (Response st body) s' =
           s'\<lparr> inflight := take i (inflight s') @ drop (Suc i) (inflight s'),
               processing := processing s' @ [Response st body] \<rparr>"
    by (intro arrival_keeps_view) simp_all
  show "galleryItems (resolve_fetch env i (Response st body) s') = galleryItems s'"
    unfolding r by simp
  show "processing (resolve_fetch env i (Response st body) s') =
          processing s' @ [Response st body]"
    unfolding r by simp
qed

theorem last_finished_is_shown_witness:
  "(0::nat) < 1 \<and> 1 < length (processing both_arrived) \<and> response_ok 200
   \<and> processing both_arrived ! 0 = envelope [photo 2 ''b.heic''] 1 3 30
   \<and> processing both_arrived ! 1 = envelope [photo 3 ''c.jpg''] 2 3 30
   \<and> galleryItems (finish_fetch env_converting 1 both_arrived)
       = processGalleryItems env_converting [photo 3 ''c.jpg'']
   \<and> galleryItems (finish_fetch env_converting (1 - 1) (finish_fetch env_converting 0 both_arrived))
       = processGalleryItems env_converting [photo 3 ''c.jpg'']
   \<and> galleryItems (finish_fetch env_converting 0 (finish_fetch env_converting 1 both_arrived))
       = processGalleryItems env_converting [photo 2 ''b.heic'']
   \<and> 1 < length (inflight two_in_flight)
   \<and> galleryItems (resolve_fetch env_converting 1 (envelope [photo 3 ''c.jpg''] 2 3 30)
         two_in_flight) = galleryItems two_in_flight"
proof -
  have h1: "(0::nat) < 1" by simp
  have h2: "1 < length (processing both_arrived)" by code_simp
  have h3: "response_ok 200" by (simp add: response_ok_def)
  have pa: "processing both_arrived ! 0 =
              Response 200 (Inr (DataObject (Some [photo 2 ''b.heic'']) None 1 3 30 12))"
    by code_simp
  have pb: "processing both_arrived ! 1 =
              Response 200 (Inr (DataObject (Some [photo 3 ''c.jpg'']) None 2 3 30 12))"
    by code_simp
  have h4: "1 < length (inflight two_in_flight)" by code_simp
  note t = last_finished_is_shown [OF h1 h2 pa pb h3 h3, of env_converting 1 two_in_flight
      200 "Inr (DataObject (Some [photo 3 ''c.jpg'']) None 2 3 30 12)"]
  show ?thesis
    using t h2 h3 h4 pa pb by (simp add: envelope_def response_items_def del: One_nat_def)
qed

text \<open>
  Claim C1 as stated fails. With the requests for page 1 and then page 2 in flight, the
  response for page 2 arrives and is applied, and then the response for page 1: the view
  ends with the items of page 1, the earlier request, while the request descriptor says
  page 2. The same happens when the response for page 1 arrives first and only its
  conversion takes longer than the processing of page 2.
\<close>

theorem stale_response_counterexample:
  "inflight two_in_flight =
     [[(''page'', ''1''), (''size'', ''12''), (''sort'', ''date,desc'')],
      [(''page'', ''2''), (''size'', ''12''), (''sort'', ''date,desc'')]]
   \<and> galleryItems stale_after_fresh = [photo 2 ''b.jpg'']
   \<and> galleryItems stale_after_fresh \<noteq> [photo 3 ''c.jpg'']
   \<and> currentPage stale_after_fresh = 1
   \<and> page (pageable stale_after_fresh) = 2
   \<and> inflight stale_after_fresh = [] \<and> processing stale_after_fresh = []
   \<and> galleryItems slow_first = [(photo 2 ''blob:b.heic'')\<lparr> originalSrc := Some ''b.heic'' \<rparr>]
   \<and> galleryItems slow_first \<noteq> [photo 3 ''c.jpg'']
   \<and> currentPage slow_first = 1
   \<and> page (pageable slow_first) = 2
   \<and> inflight slow_first = [] \<and> processing slow_first = []"
  by code_simp

subsection \<open>Release of object URLs\<close>

text \<open>
  Claim C4 fails on the code. A converted HEIC photo is opened in the viewer and the viewer
  is closed: \<open>closeViewer\<close> revokes its object URL, and the item stays in the list with
  that URL. When the component unmounts (or the list is replaced) the cleanup of the
  list revokes the same URL a second time, and so does closing the viewer on the same
  item again. The photo is converted once, so both calls name one and the same URL.
\<close>

theorem double_release:
  "galleryItems heic_page = [converted_photo]
   \<and> revoked heic_page = []
   \<and> revoked (closeViewer (openViewer converted_photo heic_page)) = [''blob:a.heic'']
   \<and> revoked (unmount (closeViewer (openViewer converted_photo heic_page))) =
        [''blob:a.heic'', ''blob:a.heic'']
   \<and> revoked (closeViewer (openViewer converted_photo
                 (closeViewer (openViewer converted_photo heic_page)))) =
        [''blob:a.heic'', ''blob:a.heic'']"
  by code_simp

subsection \<open>The media format normalizer\<close>

lemma convert_result:
  "convertHeicToJpeg env u =
     (if conversion_succeeds env u then the (heic2any_result env u) else u)"
  by (auto simp: convertHeicToJpeg_def conversion_succeeds_def split: option.splits)

text \<open>
  Claim C9. An item that is not an image flagged as HEIC or HEIF (every video, every
  other image) is returned as it is. A flagged image whose conversion fails keeps its
  locator. A flagged image whose conversion succeeds gets the converted locator, and its
  former locator is kept in \<open>originalSrc\<close>. So a locator changes only for a flagged image
  whose conversion succeeds. The list is processed item by item, in order.
\<close>

theorem normalizer_frame:
  "(\<not> heic_flagged item \<longrightarrow> processItem env item = item)
   \<and> (item_type item \<noteq> ''image'' \<longrightarrow> processItem env item = item)
   \<and> (heic_flagged item \<and> \<not> conversion_succeeds env (src item) \<longrightarrow>
        src (processItem env item) = src item)
   \<and> (heic_flagged item \<and> conversion_succeeds env (src item) \<longrightarrow>
        heic2any_result env (src item) = Some (src (processItem env item))
        \<and> originalSrc (processItem env item) = Some (src item))
   \<and> (src (processItem env item) \<noteq> src item \<longrightarrow>
        item_type item = ''image'' \<and> heic_flagged item \<and> conversion_succeeds env (src item))
   \<and> length (processGalleryItems env items) = length items
   \<and> (\<forall>k < length items. processGalleryItems env items ! k = processItem env (items ! k))"
proof -
  have a: "\<not> heic_flagged item \<Longrightarrow> processItem env item = item"
    by (simp add: processItem_def)
  have b: "item_type item \<noteq> ''image'' \<Longrightarrow> \<not> heic_flagged item"
    by (simp add: heic_flagged_def)
  have c: "heic_flagged item \<Longrightarrow> src (processItem env item) = convertHeicToJpeg env (src item)"
    and d: "heic_flagged item \<Longrightarrow> originalSrc (processItem env item) = Some (src item)"
    by (simp_all add: processItem_def)
  have e: "conversion_succeeds env u \<Longrightarrow> heic2any_result env u = Some (convertHeicToJpeg env u)" for u
    by (auto simp: convert_result conversion_succeeds_def)
  have f: "\<not> conversion_succeeds env u \<Longrightarrow> convertHeicToJpeg env u = u" for u
    by (simp add: convert_result)
  have g: "heic_flagged item \<Longrightarrow> item_type item = ''image''"
    by (simp add: heic_flagged_def)
  have h: "src (processItem env item) \<noteq> src item \<Longrightarrow>
             heic_flagged item \<and> conversion_succeeds env (src item)"
  proof (rule ccontr)
    assume neq: "src (processItem env item) \<noteq> src item"
      and "\<not> (heic_flagged item \<and> conversion_succeeds env (src item))"
    then consider "\<not> heic_flagged item"
      | "heic_flagged item" "\<not> conversion_succeeds env (src item)"
      by blast
    then show False
    proof cases
      case 1
      with a neq show False by simp
    next
      case 2
      with c f [of "src item"] neq show False by simp
    qed
  qed
  show ?thesis
  proof (intro conjI impI allI)
    show "processItem env item = item" if "\<not> heic_flagged item"
      using that by (rule a)
    show "processItem env item = item" if "item_type item \<noteq> ''image''"
      using that by (intro a b)
    show "src (processItem env item) = src item"
      if "heic_flagged item \<and> \<not> conversion_succeeds env (src item)"
      using that c f [of "src item"] by simp
    show "heic2any_result env (src item) = Some (src (processItem env item))"
      if "heic_flagged item \<and> conversion_succeeds env (src item)"
      using that c e [of "src item"] by simp
    show "originalSrc (processItem env item) = Some (src item)"
      if "heic_flagged item \<and> conversion_succeeds env (src item)"
      using that d by simp
    show "item_type item = ''image''" if "src (processItem env item) \<noteq> src item"
      using h [OF that] g by simp
    show "heic_flagged item" if "src (processItem env item) \<noteq> src item"
      using h [OF that] by simp
    show "conversion_succeeds env (src item)" if "src (processItem env item) \<noteq> src item"
      using h [OF that] by simp
    show "length (processGalleryItems env items) = length items"
      by (simp add: processGalleryItems_def)
    show "processGalleryItems env items ! k = processItem env (items ! k)"
      if "k < length items" for k
      using that by (simp add: processGalleryItems_def)
  qed
qed

theorem normalizer_frame_witness:
  "heic_flagged (photo 2 ''B.HEIC'') \<and> conversion_succeeds env_converting ''B.HEIC''
   \<and> src (processItem env_converting (photo 2 ''B.HEIC'')) = ''blob:B.HEIC''
   \<and> originalSrc (processItem env_converting (photo 2 ''B.HEIC'')) = Some ''B.HEIC''
   \<and> \<not> conversion_succeeds env_rejecting ''B.HEIC''
   \<and> src (processItem env_rejecting (photo 2 ''B.HEIC'')) = ''B.HEIC''
   \<and> \<not> heic_flagged (photo 1 ''a.jpg'')
   \<and> processItem env_converting (photo 1 ''a.jpg'') = photo 1 ''a.jpg''
   \<and> item_type (clip 3 ''c.heic'') \<noteq> ''image''
   \<and> processItem env_converting (clip 3 ''c.heic'') = clip 3 ''c.heic''"
proof -
  have h1: "heic_flagged (photo 2 ''B.HEIC'')" by code_simp
  have h2: "conversion_succeeds env_converting ''B.HEIC''" by code_simp
  have h3: "\<not> conversion_succeeds env_rejecting ''B.HEIC''" by code_simp
  have h4: "\<not> heic_flagged (photo 1 ''a.jpg'')" by code_simp
  have h5: "item_type (clip 3 ''c.heic'') \<noteq> ''image''" by code_simp
  have s: "src (photo 2 ''B.HEIC'') = ''B.HEIC''" by (simp add: photo_def)
  have r: "heic2any_result env_converting ''B.HEIC'' = Some ''blob:B.HEIC''"
    by (simp add: env_converting_def)
  note t1 = normalizer_frame [of "photo 2 ''B.HEIC''" env_converting "[]"]
  note t2 = normalizer_frame [of "photo 2 ''B.HEIC''" env_rejecting "[]"]
  note t3 = normalizer_frame [of "photo 1 ''a.jpg''" env_converting "[]"]
  note t4 = normalizer_frame [of "clip 3 ''c.heic''" env_converting "[]"]
  have "src (processItem env_converting (photo 2 ''B.HEIC'')) = ''blob:B.HEIC''"
    and "originalSrc (processItem env_converting (photo 2 ''B.HEIC'')) = Some ''B.HEIC''"
    using t1 h1 h2 by (simp_all add: s r del: One_nat_def)
  moreover have "src (processItem env_rejecting (photo 2 ''B.HEIC'')) = ''B.HEIC''"
    using t2 h1 h3 by (simp add: s)
  moreover have "processItem env_converting (photo 1 ''a.jpg'') = photo 1 ''a.jpg''"
    using t3 h4 by blast
  moreover have "processItem env_converting (clip 3 ''c.heic'') = clip 3 ''c.heic''"
    using t4 h5 by blast
  ultimately show ?thesis using h1 h2 h3 h4 h5 by blast
qed

subsection \<open>Debounced search\<close>










end
